theory Spec2Isabelle
  imports Complex_Main "HOL-Library.Word" "HOL-Library.Sublist"
begin

text \<open>
  A model of the chat back end of the weight-loss assistant: the food-intent classifier and
  the image client (doubao-image.ts), the chat client with its orchestrating method
  \<open>weightLossChat\<close> (doubao.ts), and the handler of POST /chat (route.ts). Asynchronous
  functions are modelled by their outcome: the value a promise resolves to, or the error it
  rejects with, as a sum with the error on the left. What a run does besides returning is
  kept as a trace of events. Console output is left out.
\<close>

section \<open>Strings\<close>

text \<open>
  An ECMAScript string is a sequence of 16-bit code units (UTF-16). String literals of the
  source are written here as their code units: \<open>js ''rice''\<close> for Basic Latin text, and
  the hexadecimal code units for everything else (\<open>[0x60F3, 0x5403]\<close> is the two-character
  word "xiang chi", U+60F3 U+5403).
\<close>

type_synonym jsstring = "16 word list"

definition js :: "string \<Rightarrow> jsstring" where
  "js s = map of_char s"

text \<open>Line terminators (not matched by \<open>.\<close> in a regular expression without the s flag).\<close>

definition isLineTerminator :: "16 word \<Rightarrow> bool" where
  "isLineTerminator c = (c \<in> set [0x000A, 0x000D, 0x2028, 0x2029])"

text \<open>White space code units of ECMAScript (TAB, VT, FF, SP, NBSP, ZWNBSP and category Zs).\<close>

definition isWhiteSpace :: "16 word \<Rightarrow> bool" where
  "isWhiteSpace c = (c \<in> set [0x0009, 0x000B, 0x000C, 0x0020, 0x00A0, 0xFEFF, 0x1680,
     0x2000, 0x2001, 0x2002, 0x2003, 0x2004, 0x2005, 0x2006, 0x2007, 0x2008, 0x2009, 0x200A,
     0x202F, 0x205F, 0x3000])"

text \<open>\<open>String.prototype.trim\<close>: strips white space and line terminators from both ends.\<close>

definition trim :: "jsstring \<Rightarrow> jsstring" where
  "trim s =
     (let strip = dropWhile (\<lambda>c. isWhiteSpace c \<or> isLineTerminator c)
      in rev (strip (rev (strip s))))"

text \<open>\<open>String.prototype.includes\<close>: \<open>js_includes s k\<close> is \<open>s.includes(k)\<close>.\<close>

fun js_includes :: "jsstring \<Rightarrow> jsstring \<Rightarrow> bool" where
  "js_includes [] k = (k = [])"
| "js_includes (c # cs) k = (prefix k (c # cs) \<or> js_includes cs k)"

text \<open>
  \<open>String.prototype.toLowerCase\<close> is a built-in that is not part of the repository: the
  functions below take it as the parameter \<open>lc\<close>. \<open>toLowerCaseBasic\<close> is the built-in on
  strings whose code units are Basic Latin or have no case (all the CJK text of the source);
  it is the instance used wherever a concrete run is evaluated.
\<close>

definition toLowerCaseBasic :: "jsstring \<Rightarrow> jsstring" where
  "toLowerCaseBasic s = map (\<lambda>c. if 0x41 \<le> c \<and> c \<le> 0x5A then c + 0x20 else c) s"

section \<open>The food-intent classifier (class DoubaoImageClient)\<close>

text \<open>The keyword table of \<open>detectFoodKeywords\<close>, in the order of the source.\<close>

definition foodKeywords :: "jsstring list" where
  "foodKeywords =
    [
     [0x7C73, 0x996D], js ''rice'',
     [0x9762, 0x6761], js ''noodles'',
     [0x997A, 0x5B50], js ''dumplings'',
     [0x5305, 0x5B50], js ''steamed buns'',
     [0x9992, 0x5934], js ''bread'',
     [0x9762, 0x5305], js ''bread'',
     [0x6C49, 0x5821], js ''burger'',
     [0x62AB, 0x8428], js ''pizza'',
     [0x610F, 0x9762], js ''pasta'',
     [0x7092, 0x996D], js ''fried rice'',
     [0x7CA5], js ''congee'',
     [0x9E21], js ''chicken'',
     [0x725B, 0x8089], js ''beef'',
     [0x732A, 0x8089], js ''pork'',
     [0x7F8A, 0x8089], js ''lamb'',
     [0x9C7C], js ''fish'',
     [0x867E], js ''shrimp'',
     [0x87F9], js ''crab'',
     [0x6D77, 0x9C9C], js ''seafood'',
     [0x8089], js ''meat'',
     [0x70E4, 0x8089], js ''barbecue'',
     [0x70B8, 0x9E21], js ''fried chicken'',
     [0x706B, 0x9505], js ''hotpot'',
     [0x852C, 0x83DC], js ''vegetables'',
     [0x6C99, 0x62C9], js ''salad'',
     [0x83DC], js ''dish'',
     [0x9752, 0x83DC], js ''greens'',
     [0x767D, 0x83DC], js ''cabbage'',
     [0x83E0, 0x83DC], js ''spinach'',
     [0x897F, 0x7EA2, 0x67FF], js ''tomato'',
     [0x9EC4, 0x74DC], js ''cucumber'',
     [0x571F, 0x8C46], js ''potato'',
     [0x841D, 0x535C], js ''radish'',
     [0x6C34, 0x679C], js ''fruit'',
     [0x82F9, 0x679C], js ''apple'',
     [0x9999, 0x8549], js ''banana'',
     [0x6A59, 0x5B50], js ''orange'',
     [0x8461, 0x8404], js ''grape'',
     [0x8349, 0x8393], js ''strawberry'',
     [0x897F, 0x74DC], js ''watermelon'',
     [0x67E0, 0x6AAC], js ''lemon'',
     [0x8292, 0x679C], js ''mango'',
     [0x86CB, 0x7CD5], js ''cake'',
     [0x997C, 0x5E72], js ''cookies'',
     [0x5DE7, 0x514B, 0x529B], js ''chocolate'',
     [0x51B0, 0x6DC7, 0x6DCB], js ''ice cream'',
     [0x5976, 0x8336], js ''milk tea'',
     [0x5496, 0x5561], js ''coffee'',
     [0x751C, 0x70B9], js ''dessert'',
     [0x96F6, 0x98DF], js ''snacks'',
     [0x85AF, 0x7247], js ''chips'',
     [0x7CD6, 0x679C], js ''candy'',
     [0x679C, 0x6C41], js ''juice'',
     [0x996E, 0x6599], js ''drink'',
     [0x6C7D, 0x6C34], js ''soda'',
     [0x8336], js ''tea'',
     [0x725B, 0x5976], js ''milk'',
     [0x8C46, 0x6D46], js ''soy milk'',
     [0x7092], js ''stir-fry'',
     [0x716E], js ''boil'',
     [0x84B8], js ''steam'',
     [0x70E4], js ''bake'',
     [0x70B8], js ''fry'',
     [0x714E], js ''pan-fry'',
     [0x7EA2, 0x70E7], js ''braise'',
     [0x9EBB, 0x8FA3], js ''spicy'',
     [0x9178, 0x751C], js ''sweet and sour'',
     [0x54B8], js ''salty'',
     [0x9999, 0x8FA3], js ''fragrant and spicy'',
     [0x5403], js ''eat'',
     [0x60F3, 0x5403], js ''want to eat'',
     [0x98DF, 0x7269], js ''food'',
     [0x7F8E, 0x98DF], js ''delicious food'',
     [0x6599, 0x7406], js ''cuisine'',
     [0x9910], js ''meal'',
     [0x65E9, 0x9910], js ''breakfast'',
     [0x5348, 0x9910], js ''lunch'',
     [0x665A, 0x9910], js ''dinner'',
     [0x5BB5, 0x591C], js ''midnight snack'',
     [0x5C0F, 0x5403], js ''snack''
    ]"

text \<open>
  \<open>detectFoodKeywords(text)\<close>:
  \<^verbatim>\<open>const lowerText = text.toLowerCase()
return foodKeywords.some(keyword => lowerText.includes(keyword.toLowerCase()))\<close>
\<close>

definition detectFoodKeywords :: "(jsstring \<Rightarrow> jsstring) \<Rightarrow> jsstring \<Rightarrow> bool" where
  "detectFoodKeywords lc text =
     (let lowerText = lc text
      in list_ex (\<lambda>keyword. js_includes lowerText (lc keyword)) foodKeywords)"

text \<open>
  The five regular expressions of \<open>extractFoodDescription\<close> have two shapes:
  \<^item> \<open>TriggerThenPhrase t\<close> is \<^verbatim>\<open>/t(.+?)(?:[,.!?]|$)/\<close>, where the class holds the four
    full-width marks U+FF0C, U+3002, U+FF01, U+FF1F;
  \<^item> \<open>PhraseThenTrigger t\<close> is \<^verbatim>\<open>/(.+?)t/\<close>.
  None has a flag, so they work on code units, \<open>.\<close> excludes the line terminators and
  \<open>$\<close> is the end of the input.
\<close>

datatype pattern = TriggerThenPhrase jsstring | PhraseThenTrigger jsstring

text \<open>The literal text of a pattern.\<close>

fun trigger :: "pattern \<Rightarrow> jsstring" where
  "trigger (TriggerThenPhrase t) = t"
| "trigger (PhraseThenTrigger t) = t"

definition eatPatterns :: "pattern list" where
  "eatPatterns =
    [TriggerThenPhrase [0x60F3, 0x5403],
     TriggerThenPhrase [0x5403, 0x4E86],
     TriggerThenPhrase [0x5403],
     PhraseThenTrigger [0x597D, 0x5403],
     PhraseThenTrigger [0x60F3, 0x5403]]"

definition atDelimiter :: "jsstring \<Rightarrow> bool" where
  "atDelimiter s = (case s of [] \<Rightarrow> True | c # cs \<Rightarrow> c \<in> set [0xFF0C, 0x3002, 0xFF01, 0xFF1F])"

text \<open>
  The lazy group \<open>(.+?)\<close> followed by the rest of the pattern, \<open>follows\<close>: \<open>captured\<close> holds
  the code units taken so far. The group stops at the first position where the rest of the
  pattern matches, takes one more code unit otherwise, and fails at a line terminator.
\<close>

fun lazyDot :: "(jsstring \<Rightarrow> bool) \<Rightarrow> jsstring \<Rightarrow> jsstring \<Rightarrow> jsstring option" where
  "lazyDot follows captured [] = (if follows [] then Some captured else None)"
| "lazyDot follows captured (c # cs) =
     (if follows (c # cs) then Some captured
      else if isLineTerminator c then None
      else lazyDot follows (captured @ [c]) cs)"

definition group1 :: "(jsstring \<Rightarrow> bool) \<Rightarrow> jsstring \<Rightarrow> jsstring option" where
  "group1 follows s =
     (case s of
        [] \<Rightarrow> None
      | c # cs \<Rightarrow> if isLineTerminator c then None else lazyDot follows [c] cs)"

text \<open>A match attempt that starts at the head of \<open>s\<close>; the result is capture group 1.\<close>

fun matchHere :: "pattern \<Rightarrow> jsstring \<Rightarrow> jsstring option" where
  "matchHere (TriggerThenPhrase t) s =
     (if prefix t s then group1 atDelimiter (drop (length t) s) else None)"
| "matchHere (PhraseThenTrigger t) s = group1 (prefix t) s"

text \<open>\<open>userMessage.match(pattern)\<close>: the leftmost start position that matches wins.\<close>

fun js_match :: "pattern \<Rightarrow> jsstring \<Rightarrow> jsstring option" where
  "js_match p [] = matchHere p []"
| "js_match p (c # cs) =
     (case matchHere p (c # cs) of Some g \<Rightarrow> Some g | None \<Rightarrow> js_match p cs)"

text \<open>
  The loop over \<open>eatPatterns\<close>:
  \<^verbatim>\<open>for (const pattern of eatPatterns) {
  const match = userMessage.match(pattern)
  if (match && match[1]) { return match[1].trim() }
}\<close>
  \<open>None\<close> means that the loop ran to its end.
\<close>

fun firstCapture :: "pattern list \<Rightarrow> jsstring \<Rightarrow> jsstring option" where
  "firstCapture [] userMessage = None"
| "firstCapture (p # ps) userMessage =
     (case js_match p userMessage of
        Some g \<Rightarrow> if g \<noteq> [] then Some (trim g) else firstCapture ps userMessage
      | None \<Rightarrow> firstCapture ps userMessage)"

definition extractFoodDescription :: "(jsstring \<Rightarrow> jsstring) \<Rightarrow> jsstring \<Rightarrow> jsstring" where
  "extractFoodDescription lc userMessage =
     (case firstCapture eatPatterns userMessage of
        Some description \<Rightarrow> description
      | None \<Rightarrow> if detectFoodKeywords lc userMessage then userMessage else [])"

text \<open>\<open>buildFoodPrompt\<close>: the description inside the fixed template.\<close>

definition buildFoodPrompt :: "jsstring \<Rightarrow> jsstring" where
  "buildFoodPrompt foodDescription =
     js ''Generate a high-quality, appetizing food photograph of: '' @
     foodDescription @
     [0x000A, 0x000A] @ js ''Requirements:'' @ [0x000A] @
     js ''- Make the food look delicious and professionally photographed'' @ [0x000A] @
     js ''- Use warm, appetizing lighting'' @ [0x000A] @
     js ''- Style: Food photography, restaurant menu quality'' @ [0x000A] @
     js ''- Background: Clean, simple, food-related background'' @ [0x000A] @
     js ''- Colors: Natural, realistic food colors'' @ [0x000A] @
     js ''- Composition: Centered, well-lit, appetizing presentation'' @ [0x000A] @
     js ''- No text, watermarks (except the default API watermark), or signatures'' @ [0x000A] @
     js ''- Focus on making the food look tasty and appealing'' @ [0x000A, 0x000A] @
     js ''The image should be suitable for a food blog or restaurant menu and make viewers want to eat this food.''"

section \<open>Errors and JSON values\<close>

text \<open>
  What the source throws: an \<open>Error\<close> object with its message (a rejected promise carries one
  too), or a \<open>TypeError\<close> that the engine raises when a property of \<open>null\<close> or \<open>undefined\<close>
  is read or a value that is not a function is called.
\<close>

datatype error = Error jsstring | TypeError

text \<open>
  A decoded JSON body. \<open>response.json()\<close> and \<open>request.json()\<close> give any JSON value; the
  interfaces that the source casts them to are not checked at run time.
\<close>

datatype json_value =
    JNull
  | JBool bool
  | JNumber rat
  | JString jsstring
  | JArray "json_value list"
  | JObject "(jsstring \<times> json_value) list"

text \<open>
  A value that the source holds is a JSON value or \<open>undefined\<close>, which is \<open>None\<close>.
  Truthiness: \<open>undefined\<close>, \<open>null\<close>, \<open>false\<close>, zero and the empty string are falsy.
\<close>

fun truthyValue :: "json_value option \<Rightarrow> bool" where
  "truthyValue None = False"
| "truthyValue (Some JNull) = False"
| "truthyValue (Some (JBool b)) = b"
| "truthyValue (Some (JNumber n)) = (n \<noteq> 0)"
| "truthyValue (Some (JString s)) = (s \<noteq> [])"
| "truthyValue (Some (JArray vs)) = True"
| "truthyValue (Some (JObject members)) = True"

text \<open>
  \<open>v.key\<close> for a value \<open>v\<close> other than \<open>null\<close>, for the property names that the source reads:
  \<open>message\<close>, \<open>conversationHistory\<close>, \<open>role\<close>, \<open>choices\<close>, \<open>content\<close>, \<open>data\<close>, \<open>url\<close>, \<open>length\<close> and
  the index \<open>0\<close>. An object has its own members (\<open>JSON.parse\<close> keeps the last of several equal
  keys); an array and a string have \<open>length\<close> and the index; no prototype provides any of
  these names.
\<close>

fun getProp :: "json_value \<Rightarrow> jsstring \<Rightarrow> json_value option" where
  "getProp (JObject members) key = map_of (rev members) key"
| "getProp (JArray vs) key =
     (if key = js ''length'' then Some (JNumber (of_nat (length vs)))
      else if key = js ''0'' then (case vs of [] \<Rightarrow> None | v # rest \<Rightarrow> Some v)
      else None)"
| "getProp (JString s) key =
     (if key = js ''length'' then Some (JNumber (of_nat (length s)))
      else if key = js ''0'' then (case s of [] \<Rightarrow> None | c # rest \<Rightarrow> Some (JString [c]))
      else None)"
| "getProp v key = None"

text \<open>Reading a property of \<open>undefined\<close> or \<open>null\<close> throws.\<close>

fun readProperty :: "json_value option \<Rightarrow> jsstring \<Rightarrow> error + json_value option" where
  "readProperty None key = Inl TypeError"
| "readProperty (Some JNull) key = Inl TypeError"
| "readProperty (Some v) key = Inr (getProp v key)"

text \<open>\<open>typeof v === 'string'\<close>, \<open>Array.isArray(v)\<close>, and the string or the elements behind them.\<close>

fun isString :: "json_value option \<Rightarrow> bool" where
  "isString (Some (JString s)) = True"
| "isString v = False"

fun stringOf :: "json_value option \<Rightarrow> jsstring" where
  "stringOf (Some (JString s)) = s"
| "stringOf v = []"

fun isArray :: "json_value \<Rightarrow> bool" where
  "isArray (JArray vs) = True"
| "isArray v = False"

fun elements :: "json_value \<Rightarrow> json_value list" where
  "elements (JArray vs) = vs"
| "elements v = []"

section \<open>HTTP responses\<close>

text \<open>
  What the source reads of a \<open>fetch\<close> response: the status (\<open>response.ok\<close> is a status from
  200 to 299), the status text, and the outcomes of \<open>response.text()\<close> and of
  \<open>response.json()\<close>.
\<close>

record response =
  status :: nat
  statusText :: jsstring
  textBody :: "error + jsstring"
  jsonBody :: "error + json_value"

definition ok :: "response \<Rightarrow> bool" where
  "ok r = (200 \<le> status r \<and> status r \<le> 299)"

text \<open>Template literals print a number in decimal.\<close>

fun decimal :: "nat \<Rightarrow> jsstring" where
  "decimal n = (if n < 10 then [0x30 + of_nat n] else decimal (n div 10) @ [0x30 + of_nat (n mod 10)])"

section \<open>Chat messages (interfaces of doubao.ts)\<close>

datatype chat_role = System | User | Assistant

record part =
  part_type :: jsstring
  part_text :: "jsstring option"
  part_image_url :: "jsstring option"

text \<open>
  The \<open>content\<close> of a message that the source sends is a string or an array of parts.
  \<open>Inherited name\<close> is the member \<open>name\<close> of \<open>Object.prototype\<close>: a value outside the declared
  type, which the lookup of the role in \<open>systemPrompts\<close> can produce.
\<close>

datatype content = Text jsstring | Parts "part list" | Inherited jsstring

record ChatMessage =
  role :: chat_role
  content :: content

datatype thinking = Enabled | Disabled

record ChatCompletionRequest =
  messages :: "ChatMessage list"
  model :: "jsstring option"
  temperature :: "rat option"
  max_tokens :: "nat option"
  stream :: "bool option"
  thinking :: "thinking option"

text \<open>The object that \<open>chatCompletion\<close> serialises as the body of its POST.\<close>

record chat_body =
  body_model :: jsstring
  body_messages :: "ChatMessage list"
  body_temperature :: rat
  body_max_tokens :: nat
  body_stream :: bool
  body_thinking :: thinking

section \<open>Image generation (interfaces of doubao-image.ts)\<close>

record ImageGenerationRequest =
  img_model :: jsstring
  img_prompt :: jsstring
  response_format :: jsstring
  img_size :: jsstring
  img_stream :: bool
  watermark :: bool
  sequential_image_generation :: jsstring
  max_images :: nat

section \<open>The environment of a run\<close>

text \<open>
  Everything a run depends on outside the source:
  \<^item> \<open>apiKey\<close> is \<^verbatim>\<open>process.env.DOUBAO_API_KEY || ''\<close> and \<open>defaultModel\<close> is
    \<^verbatim>\<open>process.env.DOUBAO_MODEL || 'doubao-seed-1-6-flash-250615'\<close>;
  \<^item> \<open>toLowerCase\<close> and \<open>jsonStringify\<close> are the built-ins, the latter on JSON values;
  \<^item> \<open>greaterThanZero\<close> is the built-in comparison \<open>v > 0\<close> for a string, an array or an
    object \<open>v\<close>: it converts \<open>v\<close> to a number, and throws for an object that cannot be converted
    to a primitive value;
  \<^item> \<open>chatFetch\<close> and \<open>imageFetch\<close> are the two upstream services: the outcome of \<open>fetch\<close> for
    a request body, \<open>Inl\<close> when the promise rejects;
  \<^item> \<open>castHistory\<close> is the unchecked cast \<open>conversationHistory as ChatMessage[]\<close> of the route;
  \<^item> \<open>toPropertyKey\<close> is the conversion of a role that is not a string to a property key,
    which throws for an object that cannot be converted to a primitive value;
  \<^item> \<open>development\<close> is \<^verbatim>\<open>process.env.NODE_ENV === 'development'\<close>, \<open>now\<close> is
    \<^verbatim>\<open>new Date().toISOString()\<close>, and \<open>typeErrorMessage\<close> is the message that the engine
    gives a \<open>TypeError\<close>.
\<close>

record env =
  apiKey :: jsstring
  defaultModel :: jsstring
  toLowerCase :: "jsstring \<Rightarrow> jsstring"
  jsonStringify :: "json_value \<Rightarrow> jsstring"
  greaterThanZero :: "json_value \<Rightarrow> error + bool"
  chatFetch :: "chat_body \<Rightarrow> error + response"
  imageFetch :: "ImageGenerationRequest \<Rightarrow> error + response"
  castHistory :: "json_value list \<Rightarrow> ChatMessage list"
  toPropertyKey :: "json_value \<Rightarrow> error + jsstring"
  development :: bool
  now :: jsstring
  typeErrorMessage :: jsstring

text \<open>
  \<open>x > 0\<close> for a value \<open>x\<close>: \<open>undefined\<close> converts to NaN, \<open>null\<close> to 0, \<open>true\<close> to 1 and
  \<open>false\<close> to 0.
\<close>

fun positive :: "env \<Rightarrow> json_value option \<Rightarrow> error + bool" where
  "positive env None = Inr False"
| "positive env (Some JNull) = Inr False"
| "positive env (Some (JBool b)) = Inr b"
| "positive env (Some (JNumber n)) = Inr (0 < n)"
| "positive env (Some v) = greaterThanZero env v"

text \<open>
  The trace of a run: the calls that \<open>weightLossChat\<close> makes on the two clients, and the
  requests that reach the network.
\<close>

datatype event =
    ChatCompletionCall ChatCompletionRequest
  | ChatFetch chat_body
  | ExtractFoodDescriptionCall jsstring
  | DetectFoodKeywordsCall jsstring
  | GenerateFoodImageCall jsstring
  | ImageFetch ImageGenerationRequest

text \<open>The events of the image step: a call of the classifier, or of the image generation.\<close>

fun isClassifierCall :: "event \<Rightarrow> bool" where
  "isClassifierCall (ExtractFoodDescriptionCall t) = True"
| "isClassifierCall (DetectFoodKeywordsCall t) = True"
| "isClassifierCall ev = False"

fun isImageCall :: "event \<Rightarrow> bool" where
  "isImageCall (GenerateFoodImageCall d) = True"
| "isImageCall (ImageFetch q) = True"
| "isImageCall ev = False"

section \<open>DoubaoImageClient.generateFoodImage\<close>

text \<open>
  The callback of \<open>forEach\<close>, run over the entries in order:
  \<^verbatim>\<open>item => { if (item.url) { imageUrls.push(item.url) } }\<close>
  An entry that is \<open>null\<close> makes it throw, and the loop ends there.
\<close>

fun pushUrls :: "json_value list \<Rightarrow> json_value list \<Rightarrow> error + json_value list" where
  "pushUrls imageUrls [] = Inr imageUrls"
| "pushUrls imageUrls (item # items) =
     (case readProperty (Some item) (js ''url'') of
        Inl e \<Rightarrow> Inl e
      | Inr None \<Rightarrow> pushUrls imageUrls items
      | Inr (Some u) \<Rightarrow>
          pushUrls (if truthyValue (Some u) then imageUrls @ [u] else imageUrls) items)"

text \<open>\<open>entries.forEach(...)\<close>: only an array has the method; calling it on anything else throws.\<close>

fun forEachPush :: "json_value option \<Rightarrow> error + json_value list" where
  "forEachPush (Some (JArray items)) = pushUrls [] items"
| "forEachPush v = Inl TypeError"

text \<open>
  \<^verbatim>\<open>const imageUrls: string[] = []
if (data.data && data.data.length > 0) {
  data.data.forEach(item => { if (item.url) { imageUrls.push(item.url) } })
}\<close>
  on the decoded body \<open>d\<close>.
\<close>

definition collectUrls :: "env \<Rightarrow> json_value \<Rightarrow> error + json_value list" where
  "collectUrls env d =
     (case readProperty (Some d) (js ''data'') of
        Inl e \<Rightarrow> Inl e
      | Inr entries \<Rightarrow>
          if \<not> truthyValue entries then Inr []
          else
            (case readProperty entries (js ''length'') of
               Inl e \<Rightarrow> Inl e
             | Inr n \<Rightarrow>
                 (case positive env n of
                    Inl e \<Rightarrow> Inl e
                  | Inr nonEmpty \<Rightarrow> if nonEmpty then forEachPush entries else Inr [])))"

definition imageRequest :: "jsstring \<Rightarrow> ImageGenerationRequest" where
  "imageRequest foodDescription =
     \<lparr>img_model = js ''doubao-seedream-4-0-250828'',
      img_prompt = buildFoodPrompt foodDescription,
      response_format = js ''url'',
      img_size = js ''2K'',
      img_stream = False,
      watermark = True,
      sequential_image_generation = js ''auto'',
      max_images = 1\<rparr>"

definition imageKeyMissing :: error where
  "imageKeyMissing = Error ([0x8C46, 0x5305, 0x56FE, 0x7247, 0x751F, 0x6210] @ js ''API key not configured'')"

definition imageApiError :: "nat \<Rightarrow> jsstring \<Rightarrow> jsstring \<Rightarrow> error" where
  "imageApiError st stText errorText =
     Error ([0x8C46, 0x5305, 0x56FE, 0x7247, 0x751F, 0x6210] @ js ''API error: '' @ decimal st @
            js '' '' @ stText @ js '' - '' @ errorText)"

text \<open>
  The result is the returned list or the thrown error, with the requests put on the network.
  The \<open>catch\<close> of the source logs and rethrows, so it does not appear.
\<close>

definition generateFoodImage :: "env \<Rightarrow> jsstring \<Rightarrow> (error + json_value list) \<times> event list" where
  "generateFoodImage env foodDescription =
     (if apiKey env = [] then (Inl imageKeyMissing, [])
      else
        let requestData = imageRequest foodDescription
        in (case imageFetch env requestData of
              Inl e \<Rightarrow> Inl e
            | Inr response \<Rightarrow>
                if \<not> ok response then
                  (case textBody response of
                     Inl e \<Rightarrow> Inl e
                   | Inr errorText \<Rightarrow>
                       Inl (imageApiError (status response) (statusText response) errorText))
                else
                  (case jsonBody response of
                     Inl e \<Rightarrow> Inl e
                   | Inr d \<Rightarrow> collectUrls env d),
            [ImageFetch requestData]))"

section \<open>DoubaoClient.chatCompletion\<close>

definition chatKeyMissing :: error where
  "chatKeyMissing = Error ([0x8C46, 0x5305] @ js ''API key not configured'')"

definition chatApiError :: "nat \<Rightarrow> jsstring \<Rightarrow> jsstring \<Rightarrow> error" where
  "chatApiError st stText errorText =
     Error ([0x8C46, 0x5305] @ js ''API error: '' @ decimal st @
            js '' '' @ stText @ js '' - '' @ errorText)"

text \<open>The body of the POST: \<open>a || b\<close> takes \<open>b\<close> when \<open>a\<close> is absent or falsy.\<close>

definition chatBody :: "env \<Rightarrow> ChatCompletionRequest \<Rightarrow> chat_body" where
  "chatBody env request =
     \<lparr>body_model = (case model request of Some m \<Rightarrow> if m \<noteq> [] then m else defaultModel env
                     | None \<Rightarrow> defaultModel env),
      body_messages = messages request,
      body_temperature = (case temperature request of Some t \<Rightarrow> if t \<noteq> 0 then t else 7 / 10
                           | None \<Rightarrow> 7 / 10),
      body_max_tokens = (case max_tokens request of Some n \<Rightarrow> if n \<noteq> 0 then n else 2000
                          | None \<Rightarrow> 2000),
      body_stream = (case stream request of Some b \<Rightarrow> b | None \<Rightarrow> False),
      body_thinking = (case thinking request of Some t \<Rightarrow> t | None \<Rightarrow> Disabled)\<rparr>"

text \<open>The result is the decoded body, whatever its shape: \<open>return data as ChatCompletionResponse\<close>.\<close>

definition chatCompletion ::
  "env \<Rightarrow> ChatCompletionRequest \<Rightarrow> (error + json_value) \<times> event list" where
  "chatCompletion env request =
     (if apiKey env = [] then (Inl chatKeyMissing, [])
      else
        let body = chatBody env request
        in (case chatFetch env body of
              Inl e \<Rightarrow> Inl e
            | Inr response \<Rightarrow>
                if \<not> ok response then
                  (case textBody response of
                     Inl e \<Rightarrow> Inl e
                   | Inr errorText \<Rightarrow>
                       Inl (chatApiError (status response) (statusText response) errorText))
                else jsonBody response,
            [ChatFetch body]))"

section \<open>DoubaoClient.weightLossChat\<close>

definition supportive_friend :: jsstring where
  "supportive_friend =
     [0x4F60, 0x662F, 0x4E00, 0x4E2A, 0x6E29, 0x6696, 0x3001, 0x652F, 0x6301, 0x7684, 0x670B,
      0x53CB, 0xFF0C, 0x6B63, 0x5728, 0x5E2E, 0x52A9, 0x7528, 0x6237, 0x8FDB, 0x884C, 0x51CF,
      0x80A5, 0x4E4B, 0x65C5, 0x3002, 0x4F60, 0x7684, 0x7279, 0x70B9, 0x662F, 0xFF1A, 0x000A] @
     js ''- '' @ [0x9F13, 0x52B1, 0x6027, 0x548C, 0x79EF, 0x6781, 0x6027, 0x000A] @ js ''- '' @
     [0x63D0, 0x4F9B, 0x5B9E, 0x7528, 0x7684, 0x51CF, 0x80A5, 0x5EFA, 0x8BAE, 0x000A] @
     js ''- '' @
     [0x5173, 0x6CE8, 0x5065, 0x5EB7, 0x800C, 0x4E0D, 0x662F, 0x4F53, 0x91CD, 0x6570, 0x5B57,
      0x000A] @
     js ''- '' @ [0x7ED9, 0x4E88, 0x60C5, 0x611F, 0x652F, 0x6301, 0x000A] @ js ''- '' @
     [0x4F7F, 0x7528, 0x4EB2, 0x5207, 0x3001, 0x53CB, 0x5584, 0x7684, 0x8BED, 0x6C14, 0x000A] @
     js ''- '' @
     [0x5728, 0x9002, 0x5F53, 0x7684, 0x65F6, 0x5019, 0x4F7F, 0x7528, 0x9F13, 0x52B1, 0x7684,
      0x8868, 0x60C5, 0x7B26, 0x53F7]"

definition nutritionist :: jsstring where
  "nutritionist =
     [0x4F60, 0x662F, 0x4E00, 0x540D, 0x4E13, 0x4E1A, 0x7684, 0x8425, 0x517B, 0x5E08, 0xFF0C,
      0x4E13, 0x95E8, 0x5E2E, 0x52A9, 0x7528, 0x6237, 0x5236, 0x5B9A, 0x5065, 0x5EB7, 0x7684,
      0x996E, 0x98DF, 0x8BA1, 0x5212, 0x3002, 0x4F60, 0x7684, 0x7279, 0x70B9, 0x662F, 0xFF1A,
      0x000A] @
     js ''- '' @
     [0x63D0, 0x4F9B, 0x79D1, 0x5B66, 0x3001, 0x51C6, 0x786E, 0x7684, 0x8425, 0x517B, 0x5EFA,
      0x8BAE, 0x000A] @
     js ''- '' @
     [0x5236, 0x5B9A, 0x5408, 0x7406, 0x7684, 0x996E, 0x98DF, 0x8BA1, 0x5212, 0x000A] @
     js ''- '' @
     [0x89E3, 0x91CA, 0x98DF, 0x7269, 0x7684, 0x8425, 0x517B, 0x4EF7, 0x503C, 0x000A] @
     js ''- '' @ [0x7ED9, 0x51FA, 0x5065, 0x5EB7, 0x98DF, 0x8C31, 0x5EFA, 0x8BAE, 0x000A] @
     js ''- '' @ [0x4E13, 0x4E1A, 0x4F46, 0x4E0D, 0x5931, 0x4EB2, 0x548C, 0x529B]"

definition fitness_trainer :: jsstring where
  "fitness_trainer =
     [0x4F60, 0x662F, 0x4E00, 0x540D, 0x4E13, 0x4E1A, 0x7684, 0x5065, 0x8EAB, 0x6559, 0x7EC3,
      0xFF0C, 0x5E2E, 0x52A9, 0x7528, 0x6237, 0x5236, 0x5B9A, 0x8FD0, 0x52A8, 0x8BA1, 0x5212,
      0x3002, 0x4F60, 0x7684, 0x7279, 0x70B9, 0x662F, 0xFF1A, 0x000A] @
     js ''- '' @
     [0x63D0, 0x4F9B, 0x4E13, 0x4E1A, 0x7684, 0x8FD0, 0x52A8, 0x6307, 0x5BFC, 0x000A] @
     js ''- '' @
     [0x5236, 0x5B9A, 0x9002, 0x5408, 0x7684, 0x8FD0, 0x52A8, 0x8BA1, 0x5212, 0x000A] @
     js ''- '' @
     [0x89E3, 0x91CA, 0x52A8, 0x4F5C, 0x8981, 0x70B9, 0x548C, 0x6CE8, 0x610F, 0x4E8B, 0x9879,
      0x000A] @
     js ''- '' @ [0x9F13, 0x52B1, 0x7528, 0x6237, 0x575A, 0x6301, 0x8FD0, 0x52A8, 0x000A] @
     js ''- '' @ [0x5173, 0x6CE8, 0x8FD0, 0x52A8, 0x5B89, 0x5168, 0x548C, 0x6548, 0x679C]"

text \<open>The own properties of the object literal \<open>systemPrompts\<close>.\<close>

definition systemPrompts :: "(jsstring \<times> jsstring) list" where
  "systemPrompts =
    [(js ''supportive_friend'', supportive_friend),
     (js ''nutritionist'', nutritionist),
     (js ''fitness_trainer'', fitness_trainer)]"

text \<open>
  \<open>systemPrompts\<close> is an ordinary object, so a property that it does not own is looked up in
  \<open>Object.prototype\<close>. These are the property names of \<open>Object.prototype\<close> (ECMAScript,
  with Annex B).
\<close>

definition objectPrototypeKeys :: "jsstring list" where
  "objectPrototypeKeys =
    [js ''constructor'', js ''hasOwnProperty'', js ''isPrototypeOf'',
     js ''propertyIsEnumerable'', js ''toLocaleString'', js ''toString'', js ''valueOf'',
     js ''__proto__'', js ''__defineGetter__'', js ''__defineSetter__'',
     js ''__lookupGetter__'', js ''__lookupSetter__'']"

text \<open>\<open>systemPrompts[role]\<close>; \<open>None\<close> is \<open>undefined\<close>.\<close>

definition systemPromptsGet :: "jsstring \<Rightarrow> content option" where
  "systemPromptsGet key =
     (case map_of systemPrompts key of
        Some prompt \<Rightarrow> Some (Text prompt)
      | None \<Rightarrow> if key \<in> set objectPrototypeKeys then Some (Inherited key) else None)"

text \<open>Truthiness: the empty string is falsy, every object and function is truthy.\<close>

fun truthy :: "content \<Rightarrow> bool" where
  "truthy (Text s) = (s \<noteq> [])"
| "truthy (Parts ps) = True"
| "truthy (Inherited name) = True"

text \<open>\<^verbatim>\<open>systemPrompts[role as keyof typeof systemPrompts] || systemPrompts.supportive_friend\<close>\<close>

definition systemPrompt :: "jsstring \<Rightarrow> content" where
  "systemPrompt roleMode =
     (case systemPromptsGet roleMode of
        Some v \<Rightarrow> if truthy v then v else Text supportive_friend
      | None \<Rightarrow> Text supportive_friend)"

text \<open>
  \<^verbatim>\<open>const messages = [{ role: 'system', content: systemPrompt }, ...conversationHistory,
  { role: 'user', content: userMessage }]\<close>
\<close>

definition assembleMessages :: "jsstring \<Rightarrow> ChatMessage list \<Rightarrow> jsstring \<Rightarrow> ChatMessage list" where
  "assembleMessages roleMode conversationHistory userMessage =
     [\<lparr>role = System, content = systemPrompt roleMode\<rparr>] @
     conversationHistory @
     [\<lparr>role = User, content = Text userMessage\<rparr>]"

definition chatRequest :: "jsstring \<Rightarrow> ChatMessage list \<Rightarrow> jsstring \<Rightarrow> ChatCompletionRequest" where
  "chatRequest roleMode conversationHistory userMessage =
     \<lparr>messages = assembleMessages roleMode conversationHistory userMessage,
      model = None,
      temperature = Some (8 / 10),
      max_tokens = Some 1500,
      stream = None,
      thinking = Some Enabled\<rparr>"

definition fallbackText :: jsstring where
  "fallbackText =
     [0x62B1, 0x6B49, 0xFF0C, 0x6211, 0x73B0, 0x5728, 0x65E0, 0x6CD5, 0x56DE, 0x5E94, 0x3002,
      0x8BF7, 0x7A0D, 0x540E, 0x518D, 0x8BD5, 0x3002]"

definition apologyText :: jsstring where
  "apologyText =
     [0x62B1, 0x6B49, 0xFF0C, 0x9047, 0x5230, 0x4E86, 0x4E00, 0x4E9B, 0x6280, 0x672F, 0x95EE,
      0x9898, 0x3002, 0x8BF7, 0x7A0D, 0x540E, 0x518D, 0x8BD5, 0xFF0C, 0x6216, 0x8005, 0x8054,
      0x7CFB, 0x5F00, 0x53D1, 0x8005, 0x83B7, 0x5F97, 0x5E2E, 0x52A9, 0x3002]"

text \<open>
  The value that \<open>weightLossChat\<close> resolves to: \<open>None\<close> is \<open>undefined\<close> in both fields. The
  images are the \<open>url\<close> values as they came.
\<close>

record chat_result =
  resultContent :: "jsstring option"
  images :: "json_value list option"

text \<open>
  Lines 219 and 220, on the decoded body \<open>response\<close>:
  \<^verbatim>\<open>if (response.choices && response.choices.length > 0) {
  const content = response.choices[0].message.content\<close>
  \<open>NoChoice\<close> is a condition that is false; \<open>FirstContent content\<close> is the \<open>content\<close> read, which
  is \<open>undefined\<close> when the message has none. Each property read can throw.
\<close>

datatype first_choice = NoChoice | FirstContent "json_value option"

definition firstChoice :: "env \<Rightarrow> json_value \<Rightarrow> error + first_choice" where
  "firstChoice env response =
     (case readProperty (Some response) (js ''choices'') of
        Inl e \<Rightarrow> Inl e
      | Inr cs \<Rightarrow>
          if \<not> truthyValue cs then Inr NoChoice
          else
            (case readProperty cs (js ''length'') of
               Inl e \<Rightarrow> Inl e
             | Inr n \<Rightarrow>
                 (case positive env n of
                    Inl e \<Rightarrow> Inl e
                  | Inr nonEmpty \<Rightarrow>
                      if \<not> nonEmpty then Inr NoChoice
                      else
                        (case readProperty cs (js ''0'') of
                           Inl e \<Rightarrow> Inl e
                         | Inr c \<Rightarrow>
                             (case readProperty c (js ''message'') of
                                Inl e \<Rightarrow> Inl e
                              | Inr m \<Rightarrow>
                                  (case readProperty m (js ''content'') of
                                     Inl e \<Rightarrow> Inl e
                                   | Inr v \<Rightarrow> Inr (FirstContent v)))))))"

text \<open>
  \<^verbatim>\<open>typeof content === 'string' ? content : JSON.stringify(content)\<close>;
  \<open>JSON.stringify(undefined)\<close> is \<open>undefined\<close>.
\<close>

fun stringOrJson :: "env \<Rightarrow> json_value option \<Rightarrow> jsstring option" where
  "stringOrJson env None = None"
| "stringOrJson env (Some (JString s)) = Some s"
| "stringOrJson env (Some v) = Some (jsonStringify env v)"

text \<open>
  The image step, lines 225 to 236: the images and the calls made. \<open>a && b\<close> evaluates \<open>b\<close>
  only when \<open>a\<close> is truthy, and a failure of \<open>generateFoodImage\<close> is caught and leaves
  \<open>images\<close> empty.
\<close>

definition foodImages :: "env \<Rightarrow> jsstring \<Rightarrow> jsstring \<Rightarrow> json_value list \<times> event list" where
  "foodImages env userMessage foodDescription =
     (if foodDescription \<noteq> [] then
        if detectFoodKeywords (toLowerCase env) userMessage then
          (case generateFoodImage env foodDescription of
             (Inl imageError, sent) \<Rightarrow>
               ([], [DetectFoodKeywordsCall userMessage, GenerateFoodImageCall foodDescription] @ sent)
           | (Inr urls, sent) \<Rightarrow>
               (urls, [DetectFoodKeywordsCall userMessage, GenerateFoodImageCall foodDescription] @ sent))
        else ([], [DetectFoodKeywordsCall userMessage])
      else ([], []))"

text \<open>
  The whole method. Everything after the completion call is inside the \<open>try\<close>: an error of
  the call, or of reading the first choice, ends in the \<open>catch\<close>, which returns the apology.
\<close>

definition weightLossChat ::
  "env \<Rightarrow> jsstring \<Rightarrow> ChatMessage list \<Rightarrow> jsstring \<Rightarrow> chat_result \<times> event list" where
  "weightLossChat env userMessage conversationHistory roleMode =
     (let request = chatRequest roleMode conversationHistory userMessage
      in case chatCompletion env request of
           (Inl e, sent) \<Rightarrow>
             (\<lparr>resultContent = Some apologyText, images = None\<rparr>,
              ChatCompletionCall request # sent)
         | (Inr response, sent) \<Rightarrow>
             (case firstChoice env response of
                Inl e \<Rightarrow>
                  (\<lparr>resultContent = Some apologyText, images = None\<rparr>,
                   ChatCompletionCall request # sent)
              | Inr NoChoice \<Rightarrow>
                  (\<lparr>resultContent = Some fallbackText, images = None\<rparr>,
                   ChatCompletionCall request # sent)
              | Inr (FirstContent replyContent) \<Rightarrow>
                  (let textContent = stringOrJson env replyContent;
                       foodDescription = extractFoodDescription (toLowerCase env) userMessage
                   in case foodImages env userMessage foodDescription of
                        (imgs, calls) \<Rightarrow>
                          (\<lparr>resultContent = textContent,
                            images = (if length imgs > 0 then Some imgs else None)\<rparr>,
                           ChatCompletionCall request # sent @
                           ExtractFoodDescriptionCall userMessage # calls))))"

section \<open>The route handler POST /chat (route.ts)\<close>

text \<open>
  The route passes the role on as it came, and \<open>systemPrompts[role]\<close> turns it into a property
  key: a string is its own key. The lookup is the first statement of \<open>weightLossChat\<close>, outside
  its \<open>try\<close>, so a conversion that throws reaches the \<open>catch\<close> of the route before any call.
\<close>

definition roleKey :: "env \<Rightarrow> json_value \<Rightarrow> error + jsstring" where
  "roleKey env v = (if isString (Some v) then Inr (stringOf (Some v)) else toPropertyKey env v)"

datatype reply_body =
    ErrorBody jsstring
  | SuccessBody "jsstring option" "json_value list option" jsstring
  | FailureBody jsstring "jsstring option"

record reply =
  code :: nat
  payload :: reply_body

text \<open>The outer \<open>catch\<close>: status 500, the message of the error only in development.\<close>

definition internalError :: "env \<Rightarrow> error \<Rightarrow> reply" where
  "internalError env e =
     \<lparr>code = 500,
      payload = FailureBody (js ''Failed to process chat request'')
                  (if development env
                   then (case e of Error errorMessage \<Rightarrow> Some errorMessage
                         | TypeError \<Rightarrow> Some (typeErrorMessage env))
                   else None)\<rparr>"

text \<open>
  \<open>POST env parsed\<close>: \<open>parsed\<close> is the outcome of \<open>request.json()\<close>. The destructuring at line 7
  reads the three properties of the body, and throws when the body is \<open>null\<close>;
  \<open>conversationHistory\<close> and \<open>role\<close> take their defaults when absent. The two validations come
  in the order of the source, before any call of \<open>weightLossChat\<close>.
\<close>

definition POST :: "env \<Rightarrow> error + json_value \<Rightarrow> reply \<times> event list" where
  "POST env parsed =
     (case parsed of
        Inl e \<Rightarrow> (internalError env e, [])
      | Inr body \<Rightarrow>
          (case readProperty (Some body) (js ''message'') of
             Inl e \<Rightarrow> (internalError env e, [])
           | Inr msg \<Rightarrow>
             (let conversationHistory =
                    (case getProp body (js ''conversationHistory'') of
                       Some h \<Rightarrow> h | None \<Rightarrow> JArray []);
                  roleMode =
                    (case getProp body (js ''role'') of
                       Some r \<Rightarrow> r | None \<Rightarrow> JString (js ''supportive_friend''))
              in (if \<not> truthyValue msg \<or> \<not> isString msg then
                    (\<lparr>code = 400, payload = ErrorBody (js ''Invalid message parameter'')\<rparr>, [])
                  else if \<not> isArray conversationHistory then
                    (\<lparr>code = 400,
                      payload = ErrorBody (js ''Invalid conversationHistory parameter'')\<rparr>, [])
                  else
                    (case roleKey env roleMode of
                       Inl e \<Rightarrow> (internalError env e, [])
                     | Inr key \<Rightarrow>
                         (case weightLossChat env (stringOf msg)
                                 (castHistory env (elements conversationHistory)) key of
                            (response, calls) \<Rightarrow>
                              (\<lparr>code = 200,
                                payload = SuccessBody (resultContent response) (images response)
                                            (now env)\<rparr>,
                               calls)))))))"

section \<open>Concrete environments\<close>

text \<open>
  A run against services that behave: the completion service answers "ok" with status 200,
  the image service returns one entry with a URL and one without.
\<close>

definition okCompletion :: response where
  "okCompletion =
     \<lparr>status = 200, statusText = js ''OK'', textBody = Inr [],
      jsonBody = Inr (JObject [(js ''choices'', JArray [JObject
        [(js ''index'', JNumber 0),
         (js ''message'', JObject [(js ''role'', JString (js ''assistant'')),
                                   (js ''content'', JString (js ''ok''))]),
         (js ''finish_reason'', JString (js ''stop''))]])])\<rparr>"

definition okImages :: response where
  "okImages =
     \<lparr>status = 200, statusText = js ''OK'', textBody = Inr [],
      jsonBody = Inr (JObject [(js ''data'', JArray
        [JObject [(js ''url'', JString (js ''https://img/1.png'')), (js ''index'', JNumber 0)],
         JObject [(js ''b64_json'', JString (js ''AAAA'')), (js ''index'', JNumber 1)]])])\<rparr>"

definition sampleEnv :: env where
  "sampleEnv =
     \<lparr>apiKey = js ''key'',
      defaultModel = js ''doubao-seed-1-6-flash-250615'',
      toLowerCase = toLowerCaseBasic,
      jsonStringify = (\<lambda>v. js ''[]''),
      greaterThanZero = (\<lambda>v. Inr False),
      chatFetch = (\<lambda>body. Inr okCompletion),
      imageFetch = (\<lambda>requestData. Inr okImages),
      castHistory = (\<lambda>entries. []),
      toPropertyKey = (\<lambda>v. Inr (js ''null'')),
      development = False,
      now = js ''2025-01-01T00:00:00.000Z'',
      typeErrorMessage = js ''Cannot read properties of null''\<rparr>"

text \<open>The image service answers 200 with a body that has no \<open>data\<close>.\<close>

definition noDataEnv :: env where
  "noDataEnv =
     sampleEnv\<lparr>imageFetch := (\<lambda>requestData.
        Inr \<lparr>status = 200, statusText = js ''OK'', textBody = Inr [],
             jsonBody = Inr (JObject [])\<rparr>)\<rparr>"

text \<open>The image service is unreachable: \<open>fetch\<close> rejects.\<close>

definition imageDownEnv :: env where
  "imageDownEnv = sampleEnv\<lparr>imageFetch := (\<lambda>requestData. Inl (Error (js ''fetch failed'')))\<rparr>"

text \<open>The completion service answers 503.\<close>

definition chatDownEnv :: env where
  "chatDownEnv =
     sampleEnv\<lparr>chatFetch := (\<lambda>body.
        Inr \<lparr>status = 503, statusText = js ''Service Unavailable'',
             textBody = Inr (js ''busy''), jsonBody = Inl (Error (js ''Unexpected token''))\<rparr>)\<rparr>"

text \<open>The completion service answers 200 with an empty \<open>choices\<close>.\<close>

definition noChoicesEnv :: env where
  "noChoicesEnv =
     sampleEnv\<lparr>chatFetch := (\<lambda>body.
        Inr \<lparr>status = 200, statusText = js ''OK'', textBody = Inr [],
             jsonBody = Inr (JObject [(js ''choices'', JArray [])])\<rparr>)\<rparr>"

text \<open>The completion service answers 200 with the body \<open>null\<close>.\<close>

definition nullBodyEnv :: env where
  "nullBodyEnv =
     sampleEnv\<lparr>chatFetch := (\<lambda>body.
        Inr \<lparr>status = 200, statusText = js ''OK'', textBody = Inr [],
             jsonBody = Inr JNull\<rparr>)\<rparr>"

section \<open>Properties of the classifier\<close>

lemma js_includes_sublist: "js_includes s k \<longleftrightarrow> sublist k s"
  by (induction s) (auto simp: sublist_Cons_right)

lemma js_includes_single: "js_includes s [c] \<longleftrightarrow> c \<in> set s"
  by (induction s) auto

lemma detectFoodKeywords_iff:
  "detectFoodKeywords lc t \<longleftrightarrow> (\<exists>k \<in> set foodKeywords. sublist (lc k) (lc t))"
  by (simp add: detectFoodKeywords_def list_ex_iff js_includes_sublist)

lemma chi_keyword: "[0x5403] \<in> set foodKeywords"
  by (simp add: foodKeywords_def)

lemma eat_keyword: "js ''eat'' \<in> set foodKeywords"
  by (simp add: foodKeywords_def)

text \<open>A pattern that matches leaves its literal text in the input.\<close>

lemma lazyDot_prefix: "lazyDot (prefix t) captured s = Some g \<Longrightarrow> set t \<subseteq> set s"
proof (induction s arbitrary: captured)
  case Nil
  then show ?case by (simp split: if_splits)
next
  case (Cons c cs)
  show ?case
  proof (cases "prefix t (c # cs)")
    case True
    then show ?thesis by (rule set_mono_prefix)
  next
    case False
    with Cons.prems have "lazyDot (prefix t) (captured @ [c]) cs = Some g"
      by (simp split: if_splits)
    then have "set t \<subseteq> set cs" by (rule Cons.IH)
    then show ?thesis by auto
  qed
qed

lemma matchHere_trigger: "matchHere p s = Some g \<Longrightarrow> set (trigger p) \<subseteq> set s"
proof (cases p)
  case (TriggerThenPhrase t)
  assume "matchHere p s = Some g"
  with TriggerThenPhrase have "prefix t s" by (simp split: if_splits)
  then show ?thesis using TriggerThenPhrase by (simp add: set_mono_prefix)
next
  case (PhraseThenTrigger t)
  assume "matchHere p s = Some g"
  with PhraseThenTrigger obtain c cs where s: "s = c # cs" and "lazyDot (prefix t) [c] cs = Some g"
    by (auto simp: group1_def split: list.splits if_splits)
  then have "set t \<subseteq> set cs" using lazyDot_prefix by blast
  then show ?thesis using PhraseThenTrigger s by auto
qed

lemma js_match_trigger: "js_match p s = Some g \<Longrightarrow> set (trigger p) \<subseteq> set s"
proof (induction s)
  case Nil
  then show ?case using matchHere_trigger by fastforce
next
  case (Cons c cs)
  show ?case
  proof (cases "matchHere p (c # cs)")
    case None
    with Cons have "set (trigger p) \<subseteq> set cs" by simp
    then show ?thesis by auto
  next
    case (Some h)
    then show ?thesis by (rule matchHere_trigger)
  qed
qed

lemma firstCapture_trigger:
  "firstCapture ps s = Some d \<Longrightarrow> \<exists>p \<in> set ps. set (trigger p) \<subseteq> set s"
proof (induction ps)
  case Nil
  then show ?case by simp
next
  case (Cons p ps)
  show ?case
  proof (cases "js_match p s")
    case None
    with Cons show ?thesis by simp
  next
    case (Some g)
    then have "set (trigger p) \<subseteq> set s" by (rule js_match_trigger)
    then show ?thesis by simp
  qed
qed

text \<open>Each of the five patterns contains the character "chi" (eat), U+5403.\<close>

lemma eatPatterns_chi: "firstCapture eatPatterns s = Some d \<Longrightarrow> 0x5403 \<in> set s"
proof -
  assume "firstCapture eatPatterns s = Some d"
  then obtain p where "p \<in> set eatPatterns" and sub: "set (trigger p) \<subseteq> set s"
    using firstCapture_trigger by blast
  then have "0x5403 \<in> set (trigger p)" by (auto simp: eatPatterns_def)
  with sub show ?thesis by auto
qed

lemma toLowerCaseBasic_chi: "0x5403 \<in> set s \<Longrightarrow> 0x5403 \<in> set (toLowerCaseBasic s)"
proof -
  assume "0x5403 \<in> set s"
  then have "(\<lambda>c::16 word. if 0x41 \<le> c \<and> c \<le> 0x5A then c + 0x20 else c) 0x5403
             \<in> set (toLowerCaseBasic s)"
    unfolding toLowerCaseBasic_def set_map by (rule imageI)
  then show ?thesis by simp
qed

lemma hi_no_keyword:
  "list_all (\<lambda>k. \<not> js_includes (toLowerCaseBasic (js ''hi'')) (toLowerCaseBasic k)) foodKeywords"
  by (simp add: foodKeywords_def js_def toLowerCaseBasic_def)

lemma hi_not_detected: "detectFoodKeywords toLowerCaseBasic (js ''hi'') = False"
  using hi_no_keyword by (simp add: detectFoodKeywords_def list_all_iff list_ex_iff)

text \<open>
  Claim C4, as the specification states it: for the input "I want to eat" followed by the
  word for pizza (U+62AB U+8428), \<open>detect\<close> returns true and \<open>extract\<close> returns the word for
  pizza, or the capture group of the first matching rule. On the code this fails: the five
  rules need the character U+5403, which the English sentence does not contain, so no rule
  matches and \<open>extract\<close> returns neither the word for pizza nor a capture group.
\<close>

theorem want_to_eat_pizza_counterexample:
  "\<not> (detectFoodKeywords toLowerCaseBasic (js ''I want to eat '' @ [0x62AB, 0x8428]) = True \<and>
      (extractFoodDescription toLowerCaseBasic (js ''I want to eat '' @ [0x62AB, 0x8428]) =
         [0x62AB, 0x8428] \<or>
       firstCapture eatPatterns (js ''I want to eat '' @ [0x62AB, 0x8428]) =
         Some (extractFoodDescription toLowerCaseBasic (js ''I want to eat '' @ [0x62AB, 0x8428]))))"
proof -
  have nochi: "0x5403 \<notin> set (js ''I want to eat '' @ [0x62AB, 0x8428])"
    by (simp add: js_def)
  have none: "firstCapture eatPatterns (js ''I want to eat '' @ [0x62AB, 0x8428]) = None"
  proof (cases "firstCapture eatPatterns (js ''I want to eat '' @ [0x62AB, 0x8428])")
    case None
    then show ?thesis .
  next
    case (Some d)
    then have "0x5403 \<in> set (js ''I want to eat '' @ [0x62AB, 0x8428])" by (rule eatPatterns_chi)
    with nochi show ?thesis by contradiction
  qed
  have inc: "js_includes (toLowerCaseBasic (js ''I want to eat '' @ [0x62AB, 0x8428]))
               (toLowerCaseBasic (js ''eat''))"
    by (simp add: js_def toLowerCaseBasic_def)
  have det: "detectFoodKeywords toLowerCaseBasic (js ''I want to eat '' @ [0x62AB, 0x8428])"
    using eat_keyword inc by (auto simp: detectFoodKeywords_def list_ex_iff)
  have "extractFoodDescription toLowerCaseBasic (js ''I want to eat '' @ [0x62AB, 0x8428]) =
        js ''I want to eat '' @ [0x62AB, 0x8428]"
    using none det by (simp add: extractFoodDescription_def)
  then show ?thesis using none by (simp add: js_def)
qed

text \<open>
  Claim C4, amended: for the input "I want to eat" followed by the word for pizza, \<open>detect\<close>
  returns true, no rule of the pattern list matches, and \<open>extract\<close> falls back to the whole
  input. This holds for every lower-casing that turns the input into "i want to eat" followed
  by the word for pizza and leaves the keyword "eat" as it is, as the built-in does.
\<close>

theorem want_to_eat_pizza:
  assumes low: "lc (js ''I want to eat '' @ [0x62AB, 0x8428]) = js ''i want to eat '' @ [0x62AB, 0x8428]"
    and eat: "lc (js ''eat'') = js ''eat''"
  shows "detectFoodKeywords lc (js ''I want to eat '' @ [0x62AB, 0x8428]) = True \<and>
         firstCapture eatPatterns (js ''I want to eat '' @ [0x62AB, 0x8428]) = None \<and>
         extractFoodDescription lc (js ''I want to eat '' @ [0x62AB, 0x8428]) =
           js ''I want to eat '' @ [0x62AB, 0x8428]"
proof -
  have nochi: "0x5403 \<notin> set (js ''I want to eat '' @ [0x62AB, 0x8428])"
    by (simp add: js_def)
  have none: "firstCapture eatPatterns (js ''I want to eat '' @ [0x62AB, 0x8428]) = None"
  proof (cases "firstCapture eatPatterns (js ''I want to eat '' @ [0x62AB, 0x8428])")
    case None
    then show ?thesis .
  next
    case (Some d)
    then have "0x5403 \<in> set (js ''I want to eat '' @ [0x62AB, 0x8428])" by (rule eatPatterns_chi)
    with nochi show ?thesis by contradiction
  qed
  have "js_includes (js ''i want to eat '' @ [0x62AB, 0x8428]) (js ''eat'')"
    by (simp add: js_def)
  then have inc: "js_includes (lc (js ''I want to eat '' @ [0x62AB, 0x8428])) (lc (js ''eat''))"
    by (simp only: low eat)
  have det: "detectFoodKeywords lc (js ''I want to eat '' @ [0x62AB, 0x8428])"
    using eat_keyword inc by (auto simp: detectFoodKeywords_def list_ex_iff)
  show ?thesis using none det by (simp add: extractFoodDescription_def)
qed

theorem want_to_eat_pizza_witness:
  "detectFoodKeywords toLowerCaseBasic (js ''I want to eat '' @ [0x62AB, 0x8428]) = True \<and>
   firstCapture eatPatterns (js ''I want to eat '' @ [0x62AB, 0x8428]) = None \<and>
   extractFoodDescription toLowerCaseBasic (js ''I want to eat '' @ [0x62AB, 0x8428]) =
     js ''I want to eat '' @ [0x62AB, 0x8428]"
proof -
  have low: "toLowerCaseBasic (js ''I want to eat '' @ [0x62AB, 0x8428]) =
             js ''i want to eat '' @ [0x62AB, 0x8428]"
    by (simp add: js_def toLowerCaseBasic_def)
  have eat: "toLowerCaseBasic (js ''eat'') = js ''eat''"
    by (simp add: js_def toLowerCaseBasic_def)
  show ?thesis using want_to_eat_pizza [OF low eat] .
qed

text \<open>
  Claim C5: for every input text in which no member of the keyword set occurs as a
  substring after lower-casing, \<open>detect\<close> returns false and \<open>extract\<close> returns the empty
  string. The lower-casing is any function that leaves the character U+5403 where it is,
  as the built-in does: every pattern of \<open>extract\<close> contains that character, and it is a
  keyword.
\<close>

theorem no_keyword_no_description:
  assumes chi: "lc [0x5403] = [0x5403]"
    and keeps: "\<And>s. 0x5403 \<in> set s \<Longrightarrow> 0x5403 \<in> set (lc s)"
    and none: "\<forall>k \<in> set foodKeywords. \<not> sublist (lc k) (lc t)"
  shows "detectFoodKeywords lc t = False \<and> extractFoodDescription lc t = []"
proof -
  have nodetect: "\<not> detectFoodKeywords lc t"
    using none by (simp add: detectFoodKeywords_iff)
  have "firstCapture eatPatterns t = None"
  proof (cases "firstCapture eatPatterns t")
    case None
    then show ?thesis .
  next
    case (Some d)
    then have "0x5403 \<in> set t" by (rule eatPatterns_chi)
    then have "0x5403 \<in> set (lc t)" by (rule keeps)
    then have "js_includes (lc t) (lc [0x5403])" by (simp add: chi js_includes_single)
    then have "detectFoodKeywords lc t"
      using chi_keyword by (auto simp: detectFoodKeywords_def list_ex_iff)
    with nodetect show ?thesis by simp
  qed
  with nodetect show ?thesis by (simp add: extractFoodDescription_def)
qed

theorem no_keyword_no_description_witness:
  "detectFoodKeywords toLowerCaseBasic (js ''hi'') = False \<and>
   extractFoodDescription toLowerCaseBasic (js ''hi'') = []"
proof -
  have chi: "toLowerCaseBasic [0x5403] = [0x5403]" by (simp add: toLowerCaseBasic_def)
  have none: "\<forall>k \<in> set foodKeywords. \<not> sublist (toLowerCaseBasic k) (toLowerCaseBasic (js ''hi''))"
    using hi_no_keyword by (simp add: list_all_iff js_includes_sublist)
  show ?thesis
    using no_keyword_no_description [of toLowerCaseBasic "js ''hi''", OF chi toLowerCaseBasic_chi none] .
qed

section \<open>Properties of the two clients\<close>

lemma readProperty_value: "v \<noteq> JNull \<Longrightarrow> readProperty (Some v) key = Inr (getProp v key)"
  by (cases v) simp_all

lemma getProp_defined: "getProp v key = Some w \<Longrightarrow> v \<noteq> JNull"
  by (cases v) simp_all

lemma chatCompletion_events:
  "snd (chatCompletion env request) =
     (if apiKey env = [] then [] else [ChatFetch (chatBody env request)])"
  by (simp add: chatCompletion_def Let_def)

lemma chatCompletion_no_food_events:
  "chatCompletion env request = (r, sent) \<Longrightarrow>
   list_ex isClassifierCall sent = False \<and> list_ex isImageCall sent = False"
  using chatCompletion_events [of env request] by (auto split: if_splits)

text \<open>Reading the first choice of a decoded body.\<close>

lemma firstChoice_null: "firstChoice env JNull = Inl TypeError"
  by (simp add: firstChoice_def)

lemma firstChoice_missing:
  assumes "response \<noteq> JNull"
    and "getProp response (js ''choices'') = None \<or>
         getProp response (js ''choices'') = Some (JArray [])"
  shows "firstChoice env response = Inr NoChoice"
  using assms by (auto simp: firstChoice_def readProperty_value)

lemma firstChoice_array:
  assumes "getProp response (js ''choices'') = Some (JArray (c # cs))"
    and "getProp c (js ''message'') = Some m"
    and "m \<noteq> JNull"
  shows "firstChoice env response = Inr (FirstContent (getProp m (js ''content'')))"
proof -
  have r: "response \<noteq> JNull" using assms(1) by (rule getProp_defined)
  have c: "c \<noteq> JNull" using assms(2) by (rule getProp_defined)
  have zero: "js ''0'' \<noteq> js ''length''" by (simp add: js_def)
  show ?thesis
    using assms zero
    by (simp add: firstChoice_def readProperty_value [OF r] readProperty_value [OF c]
        readProperty_value [OF assms(3)])
qed

lemma firstChoice_no_message:
  assumes "getProp response (js ''choices'') = Some (JArray (c # cs))"
    and "c = JNull \<or> getProp c (js ''message'') = None \<or> getProp c (js ''message'') = Some JNull"
  shows "firstChoice env response = Inl TypeError"
proof -
  have r: "response \<noteq> JNull" using assms(1) by (rule getProp_defined)
  have zero: "js ''0'' \<noteq> js ''length''" by (simp add: js_def)
  show ?thesis
  proof (cases "c = JNull")
    case True
    then show ?thesis
      using assms(1) zero by (simp add: firstChoice_def readProperty_value [OF r])
  next
    case False
    then show ?thesis
      using assms zero
      by (auto simp: firstChoice_def readProperty_value [OF r] readProperty_value [OF False])
  qed
qed

text \<open>The four ways through \<open>weightLossChat\<close>.\<close>

lemma weightLossChat_failed:
  "chatCompletion env (chatRequest roleMode conversationHistory userMessage) = (Inl e, sent) \<Longrightarrow>
   weightLossChat env userMessage conversationHistory roleMode =
     (\<lparr>resultContent = Some apologyText, images = None\<rparr>,
      ChatCompletionCall (chatRequest roleMode conversationHistory userMessage) # sent)"
  by (simp add: weightLossChat_def)

lemma weightLossChat_threw:
  "chatCompletion env (chatRequest roleMode conversationHistory userMessage) = (Inr response, sent) \<Longrightarrow>
   firstChoice env response = Inl e \<Longrightarrow>
   weightLossChat env userMessage conversationHistory roleMode =
     (\<lparr>resultContent = Some apologyText, images = None\<rparr>,
      ChatCompletionCall (chatRequest roleMode conversationHistory userMessage) # sent)"
  by (simp add: weightLossChat_def)

lemma weightLossChat_no_choices:
  "chatCompletion env (chatRequest roleMode conversationHistory userMessage) = (Inr response, sent) \<Longrightarrow>
   firstChoice env response = Inr NoChoice \<Longrightarrow>
   weightLossChat env userMessage conversationHistory roleMode =
     (\<lparr>resultContent = Some fallbackText, images = None\<rparr>,
      ChatCompletionCall (chatRequest roleMode conversationHistory userMessage) # sent)"
  by (simp add: weightLossChat_def)

lemma weightLossChat_reply:
  "chatCompletion env (chatRequest roleMode conversationHistory userMessage) = (Inr response, sent) \<Longrightarrow>
   firstChoice env response = Inr (FirstContent replyContent) \<Longrightarrow>
   foodImages env userMessage (extractFoodDescription (toLowerCase env) userMessage) = (imgs, calls) \<Longrightarrow>
   weightLossChat env userMessage conversationHistory roleMode =
     (\<lparr>resultContent = stringOrJson env replyContent,
       images = (if length imgs > 0 then Some imgs else None)\<rparr>,
      ChatCompletionCall (chatRequest roleMode conversationHistory userMessage) # sent @
      ExtractFoodDescriptionCall userMessage # calls)"
  by (simp add: weightLossChat_def)

lemma foodImages_failure:
  "fst (generateFoodImage env d) = Inl e \<Longrightarrow> fst (foodImages env userMessage d) = []"
  by (cases "generateFoodImage env d") (simp add: foodImages_def)

lemma foodImages_not_detected:
  "detectFoodKeywords (toLowerCase env) userMessage = False \<Longrightarrow>
   list_ex isImageCall (snd (foodImages env userMessage d)) = False"
  by (simp add: foodImages_def)

text \<open>
  A result never carries an empty list: "no image" is always the absent field
  (\<open>images: images.length > 0 ? images : undefined\<close>).
\<close>

lemma images_never_empty_list:
  "images (fst (weightLossChat env userMessage conversationHistory roleMode)) \<noteq> Some []"
  by (simp add: weightLossChat_def Let_def
      split: prod.split sum.split first_choice.split)

lemma fallback_not_apology: "fallbackText \<noteq> apologyText"
  by (simp add: fallbackText_def apologyText_def)

text \<open>Runs of the concrete environments.\<close>

lemma chatDown_fails:
  "fst (chatCompletion chatDownEnv request) =
     Inl (chatApiError 503 (js ''Service Unavailable'') (js ''busy''))"
  by (simp add: chatCompletion_def chatDownEnv_def sampleEnv_def ok_def Let_def js_def)

lemma imageDown_completion:
  "chatCompletion imageDownEnv request =
     (Inr (JObject [(js ''choices'', JArray [JObject
        [(js ''index'', JNumber 0),
         (js ''message'', JObject [(js ''role'', JString (js ''assistant'')),
                                   (js ''content'', JString (js ''ok''))]),
         (js ''finish_reason'', JString (js ''stop''))]])]),
      [ChatFetch (chatBody imageDownEnv request)])"
  by (simp add: chatCompletion_def imageDownEnv_def sampleEnv_def okCompletion_def ok_def Let_def js_def)

lemma imageDown_fails:
  "generateFoodImage imageDownEnv d =
     (Inl (Error (js ''fetch failed'')), [ImageFetch (imageRequest d)])"
  by (simp add: generateFoodImage_def imageDownEnv_def sampleEnv_def Let_def js_def)

lemma noChoices_completion:
  "chatCompletion noChoicesEnv request =
     (Inr (JObject [(js ''choices'', JArray [])]), [ChatFetch (chatBody noChoicesEnv request)])"
  by (simp add: chatCompletion_def noChoicesEnv_def sampleEnv_def ok_def Let_def js_def)

lemma nullBody_completion:
  "chatCompletion nullBodyEnv request = (Inr JNull, [ChatFetch (chatBody nullBodyEnv request)])"
  by (simp add: chatCompletion_def nullBodyEnv_def sampleEnv_def ok_def Let_def js_def)

text \<open>The message "xiang chi" (want to eat) followed by the word for pizza.\<close>

lemma xiang_chi_pizza:
  "extractFoodDescription lc [0x60F3, 0x5403, 0x62AB, 0x8428] = [0x62AB, 0x8428]"
  by (simp add: extractFoodDescription_def eatPatterns_def group1_def atDelimiter_def
      isLineTerminator_def trim_def isWhiteSpace_def)

lemma xiang_chi_pizza_detected:
  "detectFoodKeywords toLowerCaseBasic [0x60F3, 0x5403, 0x62AB, 0x8428]"
proof -
  have "js_includes (toLowerCaseBasic [0x60F3, 0x5403, 0x62AB, 0x8428]) (toLowerCaseBasic [0x5403])"
    by (simp add: toLowerCaseBasic_def)
  then show ?thesis using chi_keyword by (auto simp: detectFoodKeywords_def list_ex_iff)
qed

text \<open>The loop of \<open>generateFoodImage\<close>: the truthy URLs in order, or the throw at a \<open>null\<close> entry.\<close>

lemma pushUrls_valid:
  "JNull \<notin> set items \<Longrightarrow>
   pushUrls imageUrls items =
     Inr (imageUrls @ concat (map (\<lambda>item. case getProp item (js ''url'') of
                                             Some u \<Rightarrow> if truthyValue (Some u) then [u] else []
                                           | None \<Rightarrow> []) items))"
proof (induction items arbitrary: imageUrls)
  case Nil
  then show ?case by simp
next
  case (Cons item items)
  then have "item \<noteq> JNull" and rest: "JNull \<notin> set items" by auto
  then show ?case
    by (simp add: readProperty_value Cons.IH [OF rest] split: option.split)
qed

lemma pushUrls_null: "JNull \<in> set items \<Longrightarrow> pushUrls imageUrls items = Inl TypeError"
proof (induction items arbitrary: imageUrls)
  case Nil
  then show ?case by simp
next
  case (Cons item items)
  show ?case
  proof (cases "item = JNull")
    case True
    then show ?thesis by simp
  next
    case False
    with Cons.prems have "JNull \<in> set items" by simp
    then show ?thesis
      using False by (simp add: readProperty_value Cons.IH split: option.split)
  qed
qed

lemma collectUrls_array:
  "getProp d (js ''data'') = Some (JArray items) \<Longrightarrow>
   collectUrls env d = (if items = [] then Inr [] else pushUrls [] items)"
  by (frule getProp_defined) (simp add: collectUrls_def readProperty_value)

lemma collectUrls_missing:
  "d \<noteq> JNull \<Longrightarrow> \<not> truthyValue (getProp d (js ''data'')) \<Longrightarrow> collectUrls env d = Inr []"
  by (simp add: collectUrls_def readProperty_value)

lemma collectUrls_null: "collectUrls env JNull = Inl TypeError"
  by (simp add: collectUrls_def)

lemma collectUrls_string:
  "s \<noteq> [] \<Longrightarrow> getProp d (js ''data'') = Some (JString s) \<Longrightarrow> collectUrls env d = Inl TypeError"
  by (frule getProp_defined) (simp add: collectUrls_def readProperty_value)

lemma generateFoodImage_decoded:
  "apiKey env \<noteq> [] \<Longrightarrow> imageFetch env (imageRequest foodDescription) = Inr response \<Longrightarrow>
   ok response \<Longrightarrow> jsonBody response = Inr d \<Longrightarrow>
   fst (generateFoodImage env foodDescription) = collectUrls env d"
  by (simp add: generateFoodImage_def Let_def)

text \<open>The recognised roles, and the roles for which the fallback works.\<close>

lemma systemPrompt_recognised:
  "systemPrompt (js ''supportive_friend'') = Text supportive_friend \<and>
   systemPrompt (js ''nutritionist'') = Text nutritionist \<and>
   systemPrompt (js ''fitness_trainer'') = Text fitness_trainer"
  by (simp add: systemPrompt_def systemPromptsGet_def systemPrompts_def js_def
      supportive_friend_def nutritionist_def fitness_trainer_def)

lemma systemPrompt_fallback:
  "roleMode \<notin> set (map fst systemPrompts) \<Longrightarrow> roleMode \<notin> set objectPrototypeKeys \<Longrightarrow>
   systemPrompt roleMode = Text supportive_friend"
  by (simp add: systemPrompt_def systemPromptsGet_def map_of_eq_None_iff [THEN iffD2])

text \<open>The route: bodies that are not objects have no \<open>message\<close> and get 400, as objects do.\<close>

lemma invalid_body_400:
  assumes "body \<noteq> JNull"
    and "getProp body (js ''message'') = None \<or>
         \<not> isString (getProp body (js ''message'')) \<or>
         (\<exists>h. getProp body (js ''conversationHistory'') = Some h \<and> \<not> isArray h)"
  shows "code (fst (POST env (Inr body))) = 400 \<and>
         (\<exists>e. payload (fst (POST env (Inr body))) = ErrorBody e) \<and>
         snd (POST env (Inr body)) = []"
  using assms by (auto simp: POST_def Let_def readProperty_value)

lemma sibling_bodies_400:
  "code (fst (POST env (Inr (JNumber 5)))) = 400 \<and>
   code (fst (POST env (Inr (JArray [])))) = 400 \<and>
   code (fst (POST env (Inr (JString (js ''abc''))))) = 400 \<and>
   code (fst (POST env (Inr (JBool True)))) = 400 \<and>
   code (fst (POST env (Inr (JObject [])))) = 400"
  by (simp add: POST_def Let_def js_def)

section \<open>The claims about the orchestrator\<close>

text \<open>
  Claim C1: for every user message, role and history, if the completion call fails (throws),
  \<open>weightLossChat\<close> does not pass the error on: it returns the fixed apology as its text, with
  no image (the \<open>images\<close> field is absent, the only form of "no image" a result has), and no
  exception reaches the caller: the model of \<open>weightLossChat\<close> has no failing branch.
\<close>

theorem completion_failure_apology:
  assumes "fst (chatCompletion env (chatRequest roleMode conversationHistory userMessage)) = Inl e"
  shows "fst (weightLossChat env userMessage conversationHistory roleMode) =
           \<lparr>resultContent = Some apologyText, images = None\<rparr>"
proof -
  obtain sent where
    "chatCompletion env (chatRequest roleMode conversationHistory userMessage) = (Inl e, sent)"
    using assms
    by (cases "chatCompletion env (chatRequest roleMode conversationHistory userMessage)") simp
  then show ?thesis by (simp add: weightLossChat_failed)
qed

theorem completion_failure_apology_witness:
  "fst (weightLossChat chatDownEnv (js ''hi'') [] (js ''nutritionist'')) =
     \<lparr>resultContent = Some apologyText, images = None\<rparr>"
  using completion_failure_apology [OF chatDown_fails] .

text \<open>
  Claim C2: for every user message whose chat completion succeeds with a reply (the decoded
  body has a non-empty \<open>choices\<close> array whose first entry has a \<open>message\<close>), if the image
  generation fails (throws), \<open>weightLossChat\<close> returns the text of that reply with no image;
  the failure neither changes the text nor reaches the caller. The text is the \<open>content\<close> of
  the message when it is a string, and its JSON text otherwise.
\<close>

theorem image_failure_keeps_reply:
  assumes "chatCompletion env (chatRequest roleMode conversationHistory userMessage) =
             (Inr response, sent)"
    and "getProp response (js ''choices'') = Some (JArray (c # cs))"
    and "getProp c (js ''message'') = Some m"
    and "m \<noteq> JNull"
    and "fst (generateFoodImage env (extractFoodDescription (toLowerCase env) userMessage)) = Inl e"
  shows "fst (weightLossChat env userMessage conversationHistory roleMode) =
           \<lparr>resultContent = stringOrJson env (getProp m (js ''content'')), images = None\<rparr>"
proof -
  have fc: "firstChoice env response = Inr (FirstContent (getProp m (js ''content'')))"
    using assms(2) assms(3) assms(4) by (rule firstChoice_array)
  obtain imgs calls where
    fi: "foodImages env userMessage (extractFoodDescription (toLowerCase env) userMessage) =
           (imgs, calls)"
    by (cases "foodImages env userMessage (extractFoodDescription (toLowerCase env) userMessage)")
  have "imgs = []" using foodImages_failure [OF assms(5), of userMessage] fi by simp
  with weightLossChat_reply [OF assms(1) fc fi] show ?thesis by simp
qed

text \<open>
  The witness is a run in which the image generation is really called and fails: the message
  is "xiang chi" followed by the word for pizza, and the image service is unreachable.
\<close>

theorem image_failure_keeps_reply_witness:
  "fst (weightLossChat imageDownEnv [0x60F3, 0x5403, 0x62AB, 0x8428] [] (js ''nutritionist'')) =
     \<lparr>resultContent = Some (js ''ok''), images = None\<rparr> \<and>
   fst (generateFoodImage imageDownEnv [0x62AB, 0x8428]) = Inl (Error (js ''fetch failed'')) \<and>
   list_ex isImageCall
     (snd (weightLossChat imageDownEnv [0x60F3, 0x5403, 0x62AB, 0x8428] [] (js ''nutritionist''))) = True"
proof -
  let ?m = "JObject [(js ''role'', JString (js ''assistant'')), (js ''content'', JString (js ''ok''))]"
  let ?c = "JObject [(js ''index'', JNumber 0), (js ''message'', ?m),
                     (js ''finish_reason'', JString (js ''stop''))]"
  let ?body = "JObject [(js ''choices'', JArray [?c])]"
  have lc: "toLowerCase imageDownEnv = toLowerCaseBasic"
    by (simp add: imageDownEnv_def sampleEnv_def)
  have ch: "getProp ?body (js ''choices'') = Some (JArray (?c # []))"
    by simp
  have msg: "getProp ?c (js ''message'') = Some ?m"
    by (simp add: js_def)
  have nn: "?m \<noteq> JNull"
    by simp
  have reads: "getProp ?m (js ''content'') = Some (JString (js ''ok''))"
    by (simp add: js_def)
  have fails: "fst (generateFoodImage imageDownEnv
                 (extractFoodDescription (toLowerCase imageDownEnv) [0x60F3, 0x5403, 0x62AB, 0x8428])) =
               Inl (Error (js ''fetch failed''))"
    by (simp add: imageDown_fails)
  have reply: "fst (weightLossChat imageDownEnv [0x60F3, 0x5403, 0x62AB, 0x8428] []
                      (js ''nutritionist'')) =
     \<lparr>resultContent = Some (js ''ok''), images = None\<rparr>"
    using image_failure_keeps_reply [OF imageDown_completion ch msg nn fails]
    by (simp only: reads stringOrJson.simps)
  have fi: "foodImages imageDownEnv [0x60F3, 0x5403, 0x62AB, 0x8428]
              (extractFoodDescription (toLowerCase imageDownEnv) [0x60F3, 0x5403, 0x62AB, 0x8428]) =
            ([], [DetectFoodKeywordsCall [0x60F3, 0x5403, 0x62AB, 0x8428],
                  GenerateFoodImageCall [0x62AB, 0x8428],
                  ImageFetch (imageRequest [0x62AB, 0x8428])])"
    using xiang_chi_pizza_detected
    by (simp add: foodImages_def lc xiang_chi_pizza imageDown_fails)
  have "list_ex isImageCall
     (snd (weightLossChat imageDownEnv [0x60F3, 0x5403, 0x62AB, 0x8428] [] (js ''nutritionist''))) = True"
    using weightLossChat_reply [OF imageDown_completion firstChoice_array [OF ch msg nn] fi] by simp
  with reply show ?thesis by (simp add: imageDown_fails)
qed

text \<open>
  Claim C6: for every role, history and user message, the message sequence handed to the
  completion call is the system message, then the history, then the new user message: it has
  \<open>length history + 2\<close> entries, the first carries the system prompt resolved for the role,
  the middle entries are the history unchanged and in order, and the last is the new user
  message. The same sequence is the \<open>messages\<close> of the request body, and the call is the first
  thing a run does. The history is a value that the function only reads.
\<close>

theorem assembled_messages:
  "assembleMessages roleMode conversationHistory userMessage =
     \<lparr>role = System, content = systemPrompt roleMode\<rparr> # conversationHistory @
     [\<lparr>role = User, content = Text userMessage\<rparr>] \<and>
   length (assembleMessages roleMode conversationHistory userMessage) =
     length conversationHistory + 2 \<and>
   hd (assembleMessages roleMode conversationHistory userMessage) =
     \<lparr>role = System, content = systemPrompt roleMode\<rparr> \<and>
   butlast (tl (assembleMessages roleMode conversationHistory userMessage)) = conversationHistory \<and>
   last (assembleMessages roleMode conversationHistory userMessage) =
     \<lparr>role = User, content = Text userMessage\<rparr> \<and>
   messages (chatRequest roleMode conversationHistory userMessage) =
     assembleMessages roleMode conversationHistory userMessage \<and>
   body_messages (chatBody env (chatRequest roleMode conversationHistory userMessage)) =
     assembleMessages roleMode conversationHistory userMessage \<and>
   hd (snd (weightLossChat env userMessage conversationHistory roleMode)) =
     ChatCompletionCall (chatRequest roleMode conversationHistory userMessage)"
proof -
  have "hd (snd (weightLossChat env userMessage conversationHistory roleMode)) =
     ChatCompletionCall (chatRequest roleMode conversationHistory userMessage)"
    by (simp add: weightLossChat_def Let_def split: prod.split sum.split first_choice.split)
  then show ?thesis
    by (simp add: assembleMessages_def chatRequest_def chatBody_def)
qed

text \<open>
  Claim C7 says that every role string other than the three recognised ones gets the
  supportive-friend prompt. The code looks the role up in an ordinary object and falls back
  only when the lookup is falsy, so a role that names a member of \<open>Object.prototype\<close> gets that
  member instead: for the role "constructor" the system prompt is the inherited
  \<open>constructor\<close>, not the supportive-friend text, and that value becomes the content of the
  first message.
\<close>

theorem inherited_role_prompt:
  "systemPrompt (js ''constructor'') = Inherited (js ''constructor'') \<and>
   systemPrompt (js ''constructor'') \<noteq> Text supportive_friend \<and>
   hd (assembleMessages (js ''constructor'') [] (js ''hi'')) =
     \<lparr>role = System, content = Inherited (js ''constructor'')\<rparr>"
  by (simp add: systemPrompt_def systemPromptsGet_def systemPrompts_def objectPrototypeKeys_def
      assembleMessages_def js_def)

text \<open>
  Claim C8: for every user message in which \<open>detect\<close> finds no food keyword, a run of
  \<open>weightLossChat\<close> makes no call of the image generation and puts no image request on the
  network, whatever the completion call does.
\<close>

theorem no_food_no_image_call:
  assumes "detectFoodKeywords (toLowerCase env) userMessage = False"
  shows "list_ex isImageCall (snd (weightLossChat env userMessage conversationHistory roleMode)) = False"
proof -
  obtain r sent where
    cc: "chatCompletion env (chatRequest roleMode conversationHistory userMessage) = (r, sent)"
    by (cases "chatCompletion env (chatRequest roleMode conversationHistory userMessage)")
  then have sent: "list_ex isImageCall sent = False"
    using chatCompletion_no_food_events by blast
  show ?thesis
  proof (cases r)
    case (Inl e)
    with cc sent show ?thesis by (simp add: weightLossChat_failed)
  next
    case (Inr response)
    show ?thesis
    proof (cases "firstChoice env response")
      case (Inl e)
      with cc Inr sent show ?thesis by (simp add: weightLossChat_threw)
    next
      case outcome: (Inr choice)
      show ?thesis
      proof (cases choice)
        case NoChoice
        with cc Inr outcome sent show ?thesis by (simp add: weightLossChat_no_choices)
      next
        case (FirstContent replyContent)
        obtain imgs calls where
          fi: "foodImages env userMessage (extractFoodDescription (toLowerCase env) userMessage) =
                 (imgs, calls)"
          by (cases "foodImages env userMessage (extractFoodDescription (toLowerCase env) userMessage)")
        then have "list_ex isImageCall calls = False"
          using foodImages_not_detected
                  [OF assms, of "extractFoodDescription (toLowerCase env) userMessage"]
          by simp
        with sent weightLossChat_reply [OF cc [unfolded Inr] outcome [unfolded FirstContent] fi]
        show ?thesis by simp
      qed
    qed
  qed
qed

text \<open>The witness runs against services that all answer: the image service is never asked.\<close>

theorem no_food_no_image_call_witness:
  "list_ex isImageCall (snd (weightLossChat sampleEnv (js ''hi'') [] (js ''nutritionist''))) = False"
proof -
  have "detectFoodKeywords (toLowerCase sampleEnv) (js ''hi'') = False"
    using hi_not_detected by (simp add: sampleEnv_def)
  then show ?thesis by (rule no_food_no_image_call)
qed

text \<open>
  Claim C10, as stated: for every run in which the completion call returns but \<open>choices\<close> is
  missing or empty, \<open>weightLossChat\<close> returns the fallback text. On the code this fails when the
  decoded body is \<open>null\<close>: the call returns, there is no \<open>choices\<close>, but reading \<open>response.choices\<close>
  throws inside the \<open>try\<close>, and the \<open>catch\<close> returns the apology, which is not the fallback.
\<close>

theorem null_completion_counterexample:
  "fst (chatCompletion nullBodyEnv (chatRequest (js ''nutritionist'') [] (js ''hi''))) = Inr JNull \<and>
   fst (weightLossChat nullBodyEnv (js ''hi'') [] (js ''nutritionist'')) =
     \<lparr>resultContent = Some apologyText, images = None\<rparr> \<and>
   resultContent (fst (weightLossChat nullBodyEnv (js ''hi'') [] (js ''nutritionist''))) \<noteq>
     Some fallbackText"
proof -
  have "weightLossChat nullBodyEnv (js ''hi'') [] (js ''nutritionist'') =
     (\<lparr>resultContent = Some apologyText, images = None\<rparr>,
      ChatCompletionCall (chatRequest (js ''nutritionist'') [] (js ''hi'')) #
      [ChatFetch (chatBody nullBodyEnv (chatRequest (js ''nutritionist'') [] (js ''hi'')))])"
    using nullBody_completion firstChoice_null by (rule weightLossChat_threw)
  then show ?thesis
    using fallback_not_apology by (simp add: nullBody_completion)
qed

text \<open>
  Claim C10, amended: for every run in which the completion call returns a body other than
  \<open>null\<close> whose \<open>choices\<close> is missing or an empty array, \<open>weightLossChat\<close> returns the fixed
  fallback text, which differs from the apology used for thrown errors, with no image; the
  run consists of the completion call and its request, so neither the classifier nor the
  image generation is called.
\<close>

theorem no_choices_fallback:
  assumes "chatCompletion env (chatRequest roleMode conversationHistory userMessage) =
             (Inr response, sent)"
    and "response \<noteq> JNull"
    and "getProp response (js ''choices'') = None \<or>
         getProp response (js ''choices'') = Some (JArray [])"
  shows "weightLossChat env userMessage conversationHistory roleMode =
           (\<lparr>resultContent = Some fallbackText, images = None\<rparr>,
            ChatCompletionCall (chatRequest roleMode conversationHistory userMessage) # sent) \<and>
         list_ex isClassifierCall
           (snd (weightLossChat env userMessage conversationHistory roleMode)) = False \<and>
         list_ex isImageCall
           (snd (weightLossChat env userMessage conversationHistory roleMode)) = False \<and>
         fallbackText \<noteq> apologyText"
proof -
  have "firstChoice env response = Inr NoChoice"
    using assms(2) assms(3) by (rule firstChoice_missing)
  with assms(1) have run: "weightLossChat env userMessage conversationHistory roleMode =
           (\<lparr>resultContent = Some fallbackText, images = None\<rparr>,
            ChatCompletionCall (chatRequest roleMode conversationHistory userMessage) # sent)"
    by (rule weightLossChat_no_choices)
  have "list_ex isClassifierCall sent = False \<and> list_ex isImageCall sent = False"
    using assms(1) by (rule chatCompletion_no_food_events)
  with run fallback_not_apology show ?thesis by simp
qed

text \<open>The witness is a message full of food keywords: the classifier is still not called.\<close>

theorem no_choices_fallback_witness:
  "weightLossChat noChoicesEnv [0x60F3, 0x5403, 0x62AB, 0x8428] [] (js ''nutritionist'') =
     (\<lparr>resultContent = Some fallbackText, images = None\<rparr>,
      [ChatCompletionCall (chatRequest (js ''nutritionist'') [] [0x60F3, 0x5403, 0x62AB, 0x8428]),
       ChatFetch (chatBody noChoicesEnv
                    (chatRequest (js ''nutritionist'') [] [0x60F3, 0x5403, 0x62AB, 0x8428]))])"
proof -
  have a: "JObject [(js ''choices'', JArray [])] \<noteq> JNull" by simp
  have b: "getProp (JObject [(js ''choices'', JArray [])]) (js ''choices'') = None \<or>
           getProp (JObject [(js ''choices'', JArray [])]) (js ''choices'') = Some (JArray [])"
    by simp
  from no_choices_fallback [OF noChoices_completion a b] show ?thesis by simp
qed

section \<open>The claim about the image client\<close>

text \<open>
  Claim C3, as the specification states it, has a second half: a structurally invalid
  response, such as one without the \<open>data\<close> array, is a hard failure and not an empty list.
  On the code this fails: a 2xx response whose body has no \<open>data\<close> gives the empty list.
\<close>

theorem missing_data_counterexample:
  "fst (generateFoodImage noDataEnv [0x62AB, 0x8428]) = Inr []"
  by (simp add: generateFoodImage_def noDataEnv_def sampleEnv_def ok_def collectUrls_def
      Let_def js_def)

text \<open>
  Claim C3, amended: with the key set, for every 2xx response whose body decodes to \<open>d\<close>:
  when \<open>data\<close> is an array without a \<open>null\<close> entry, \<open>generateFoodImage\<close> returns the truthy \<open>url\<close>
  values of the entries in the order of the response, skipping the entries whose \<open>url\<close> is
  absent or falsy; when \<open>d\<close> is not \<open>null\<close> and its \<open>data\<close> is missing or falsy, the result is
  the empty list;
  when \<open>d\<close> is \<open>null\<close>, or \<open>data\<close> is a non-empty string, or \<open>data\<close> is an array with a \<open>null\<close>
  entry, the call fails with a \<open>TypeError\<close> and returns no part of a list.
\<close>

theorem generateFoodImage_urls:
  assumes "apiKey env \<noteq> []"
    and "imageFetch env (imageRequest foodDescription) = Inr response"
    and "ok response"
    and "jsonBody response = Inr d"
  shows "(getProp d (js ''data'') = Some (JArray items) \<and> JNull \<notin> set items \<longrightarrow>
            fst (generateFoodImage env foodDescription) =
              Inr (concat (map (\<lambda>item. case getProp item (js ''url'') of
                                           Some u \<Rightarrow> if truthyValue (Some u) then [u] else []
                                         | None \<Rightarrow> []) items))) \<and>
         (d \<noteq> JNull \<and> \<not> truthyValue (getProp d (js ''data'')) \<longrightarrow>
            fst (generateFoodImage env foodDescription) = Inr []) \<and>
         (d = JNull \<or>
          (getProp d (js ''data'') = Some (JString s) \<and> s \<noteq> []) \<or>
          (getProp d (js ''data'') = Some (JArray items) \<and> JNull \<in> set items) \<longrightarrow>
            fst (generateFoodImage env foodDescription) = Inl TypeError)"
proof -
  have run: "fst (generateFoodImage env foodDescription) = collectUrls env d"
    using assms by (rule generateFoodImage_decoded)
  have valid: "collectUrls env d =
      Inr (concat (map (\<lambda>item. case getProp item (js ''url'') of
                                   Some u \<Rightarrow> if truthyValue (Some u) then [u] else []
                                 | None \<Rightarrow> []) items))"
    if "getProp d (js ''data'') = Some (JArray items)" and "JNull \<notin> set items"
    using that by (simp add: collectUrls_array pushUrls_valid)
  have missing: "collectUrls env d = Inr []"
    if "d \<noteq> JNull" and "\<not> truthyValue (getProp d (js ''data''))"
    using that by (rule collectUrls_missing)
  have broken: "collectUrls env d = Inl TypeError"
    if "d = JNull \<or> (getProp d (js ''data'') = Some (JString s) \<and> s \<noteq> []) \<or>
        (getProp d (js ''data'') = Some (JArray items) \<and> JNull \<in> set items)"
    using that collectUrls_null [of env] collectUrls_string [of s d env]
      collectUrls_array [of d items env] pushUrls_null [of items "[]"]
    by auto
  show ?thesis
    using valid missing broken by (simp only: run) blast
qed

theorem generateFoodImage_urls_witness:
  "fst (generateFoodImage sampleEnv [0x62AB, 0x8428]) = Inr [JString (js ''https://img/1.png'')]"
proof -
  let ?items = "[JObject [(js ''url'', JString (js ''https://img/1.png'')), (js ''index'', JNumber 0)],
                 JObject [(js ''b64_json'', JString (js ''AAAA'')), (js ''index'', JNumber 1)]]"
  let ?d = "JObject [(js ''data'', JArray ?items)]"
  have k: "apiKey sampleEnv \<noteq> []" by (simp add: sampleEnv_def js_def)
  have f: "imageFetch sampleEnv (imageRequest [0x62AB, 0x8428]) = Inr okImages"
    by (simp add: sampleEnv_def)
  have o: "ok okImages" by (simp add: ok_def okImages_def)
  have j: "jsonBody okImages = Inr ?d"
    by (simp add: okImages_def)
  have shape: "getProp ?d (js ''data'') = Some (JArray ?items) \<and> JNull \<notin> set ?items"
    by simp
  have "fst (generateFoodImage sampleEnv [0x62AB, 0x8428]) =
          Inr (concat (map (\<lambda>item. case getProp item (js ''url'') of
                                       Some u \<Rightarrow> if truthyValue (Some u) then [u] else []
                                     | None \<Rightarrow> []) ?items))"
    using generateFoodImage_urls [OF k f o j, of ?items] shape by blast
  then show ?thesis by (simp add: js_def)
qed

section \<open>The claim about the route handler\<close>

text \<open>
  Claim C9 says that every request body in which \<open>message\<close> is absent or not a string, or
  \<open>conversationHistory\<close> is present and not an array, gets status 400 with an \<open>error\<close> field.
  The body \<open>null\<close> has no \<open>message\<close>, but the destructuring at line 7 of the handler throws on
  it before the validation at lines 10 to 22 is reached, and the outer \<open>catch\<close> answers 500.
  Every other body without a \<open>message\<close>, object or not, gets 400 (\<open>invalid_body_400\<close>,
  \<open>sibling_bodies_400\<close>).
\<close>

theorem null_body_500:
  "POST env (Inr JNull) = (internalError env TypeError, []) \<and>
   code (fst (POST env (Inr JNull))) = 500 \<and>
   code (fst (POST env (Inr JNull))) \<noteq> 400"
  by (simp add: POST_def internalError_def)

theorem null_body_500_witness:
  "POST sampleEnv (Inr JNull) =
     (\<lparr>code = 500, payload = FailureBody (js ''Failed to process chat request'') None\<rparr>, [])"
  using null_body_500 [of sampleEnv] by (simp add: internalError_def sampleEnv_def)

end
